theory Spec2Isabelle
  imports Complex_Main "HOL-Library.Sublist" "HOL-Library.Log_Nat"
begin

section \<open>Shared JavaScript notions\<close>

text \<open>
  A thrown JavaScript \<open>Error\<close> object: its \<open>message\<close>, and the optional \<open>code\<close>
  property that axios sets on its own errors (\<open>ERR_NETWORK\<close>, \<open>ECONNABORTED\<close>) and that
  a plain \<open>new Error(msg)\<close> does not have.
\<close>

record js_error =
  code :: "string option"
  message :: string

text \<open>The settlement of an awaited promise.\<close>

datatype 'a outcome = Resolved 'a | Rejected js_error

section \<open>FileUpload.jsx\<close>

text \<open>Source: \<open>frontend/src/components/FileUpload.jsx\<close>, \<open>validateFile\<close> and \<open>handleFileUpload\<close>.\<close>

text \<open>The fields of a browser \<open>File\<close> that the component reads.\<close>

record js_file =
  file_name :: string
  file_type :: string
  file_size :: nat

text \<open>\<open>String.prototype.startsWith\<close>.\<close>

definition startsWith :: "string \<Rightarrow> string \<Rightarrow> bool" where
  "startsWith s p = prefix p s"

text \<open>
  \<open>validateFile\<close>: throws (\<open>Inl\<close> the message of the thrown \<open>Error\<close>) or returns \<open>true\<close>.
  The type check comes first, then the size check against \<open>10 * 1024 * 1024\<close>.
\<close>

definition validateFile :: "js_file \<Rightarrow> string + bool" where
  "validateFile f =
     (if \<not> startsWith (file_type f) ''image/''
      then Inl ''Please select an image file''
      else (let maxSize = 10 * 1024 * 1024
            in if file_size f > maxSize
               then Inl ''File size must be less than 10MB''
               else Inr True))"

text \<open>The body of the upload response the component reads: \<open>response.file_id\<close>.\<close>

record upload_response =
  file_id :: string

text \<open>
  The component's state (\<open>uploading\<close>, and \<open>error\<close> under the name \<open>upload_error\<close>)
  together with the effects of a run that are visible outside it: the files handed to
  \<open>uploadFile\<close> (\<open>requests\<close>) and the calls of the \<open>onFileUpload\<close> prop (\<open>callbacks\<close>),
  oldest first.
\<close>

record upload_ui =
  uploading :: bool
  upload_error :: "string option"
  requests :: "js_file list"
  callbacks :: "(js_file \<times> string) list"

text \<open>
  \<open>handleFileUpload\<close>. The \<open>try\<close> block validates, sets \<open>uploading\<close>, clears the
  error, awaits \<open>uploadFile\<close> and calls \<open>onFileUpload(file, response.file_id)\<close>; the
  \<open>catch\<close> block stores \<open>err.message\<close>; the \<open>finally\<close> block resets \<open>uploading\<close>.
  \<open>uploadFile\<close> is the imported API call, given as the settlement of its promise.
\<close>

definition handleFileUpload ::
    "(js_file \<Rightarrow> upload_response outcome) \<Rightarrow> js_file \<Rightarrow> upload_ui \<Rightarrow> upload_ui" where
  "handleFileUpload uploadFile f s =
     (case validateFile f of
        Inl msg \<Rightarrow> s\<lparr>upload_error := Some msg, uploading := False\<rparr>
      | Inr _ \<Rightarrow>
          (let s1 = s\<lparr>uploading := True, upload_error := None, requests := requests s @ [f]\<rparr>
           in case uploadFile f of
                Rejected err \<Rightarrow> s1\<lparr>upload_error := Some (message err), uploading := False\<rparr>
              | Resolved response \<Rightarrow>
                  s1\<lparr>callbacks := callbacks s1 @ [(f, file_id response)],
                     uploading := False\<rparr>))"

section \<open>services/api.js\<close>

text \<open>
  Source: the API service module, the second document of
  \<open>frontend/src/components/RecommendationResults.jsx\<close> (from line 264 on).
\<close>

text \<open>JSON values, for the bodies that travel between the backend and the frontend.\<close>

datatype json =
    JNull
  | JBool bool
  | JNum int
  | JStr string
  | JArr "json list"
  | JObj "(string \<times> json) list"

text \<open>
  A JSON object as the frontend holds it; reading a property that is absent gives
  \<open>undefined\<close>, here \<open>None\<close>.
\<close>

type_synonym js_object = "(string \<times> json) list"

definition property :: "js_object \<Rightarrow> string \<Rightarrow> json option" where
  "property ob k = map_of ob k"

datatype http_method = GET | POST | DELETE

datatype request_data = NoData | FormData "(string \<times> js_file) list" | JsonData js_object

text \<open>
  The per-call config object of axios, with the keys that this module or a cancellation
  could use: \<open>headers\<close>, \<open>params\<close>, \<open>timeout\<close> and the abort \<open>signal\<close>.
\<close>

record call_config =
  cfg_headers :: "(string \<times> string) list"
  cfg_params :: "(string \<times> string) list"
  cfg_timeout :: "nat option"
  cfg_signal :: "unit option"

definition no_config :: call_config where
  "no_config = \<lparr>cfg_headers = [], cfg_params = [], cfg_timeout = None, cfg_signal = None\<rparr>"

text \<open>The request that leaves the axios instance; its \<open>method\<close> is the field \<open>req_method\<close>.\<close>

record http_request =
  req_method :: http_method
  baseURL :: string
  url :: string
  params :: "(string \<times> string) list"
  headers :: "(string \<times> string) list"
  data :: request_data
  timeout :: nat
  signal :: "unit option"

text \<open>
  \<open>API_BASE_URL = import.meta.env.VITE_API_URL || 'http://localhost:8000'\<close>: the
  environment variable when it is set and not empty.
\<close>

definition API_BASE_URL :: "string option \<Rightarrow> string" where
  "API_BASE_URL env =
     (case env of
        None \<Rightarrow> ''http://localhost:8000''
      | Some u \<Rightarrow> if u = [] then ''http://localhost:8000'' else u)"

text \<open>
  \<open>api = axios.create({baseURL, timeout: 30000, headers: {'Content-Type':
  'application/json'}})\<close>, and what the instance does with a call: the call's config is
  laid over the instance defaults, a header of the call replacing the default of the same
  name.
\<close>

definition api_timeout :: nat where
  "api_timeout = 30000"

definition api_headers :: "(string \<times> string) list" where
  "api_headers = [(''Content-Type'', ''application/json'')]"

definition api_request ::
    "string option \<Rightarrow> http_method \<Rightarrow> string \<Rightarrow> request_data \<Rightarrow> call_config \<Rightarrow> http_request" where
  "api_request env m u d cfg =
     \<lparr>req_method = m,
      baseURL = API_BASE_URL env,
      url = u,
      params = cfg_params cfg,
      headers = cfg_headers cfg
        @ filter (\<lambda>(k, _). k \<notin> fst ` set (cfg_headers cfg)) api_headers,
      data = d,
      timeout = (case cfg_timeout cfg of None \<Rightarrow> api_timeout | Some t \<Rightarrow> t),
      signal = cfg_signal cfg\<rparr>"

definition api_post :: "string option \<Rightarrow> string \<Rightarrow> request_data \<Rightarrow> call_config \<Rightarrow> http_request" where
  "api_post env u d cfg = api_request env POST u d cfg"

definition api_delete :: "string option \<Rightarrow> string \<Rightarrow> http_request" where
  "api_delete env u = api_request env DELETE u NoData no_config"

definition api_get :: "string option \<Rightarrow> string \<Rightarrow> http_request" where
  "api_get env u = api_request env GET u NoData no_config"

text \<open>
  What comes back from the network: a response, or the error axios raises, with its
  \<open>code\<close>, its \<open>message\<close> and, when the server answered, the \<open>response\<close> (its status and
  the \<open>detail\<close> string of its body when there is one).
\<close>

record http_response =
  status :: nat
  body :: js_object

record error_response =
  err_status :: nat
  detail :: "string option"

record axios_error =
  ax_code :: "string option"
  ax_message :: string
  ax_response :: "error_response option"

type_synonym transport = "http_request \<Rightarrow> axios_error + http_response"

text \<open>
  The response interceptor's error handler. Every branch throws a fresh
  \<open>new Error(message)\<close>; the value returned here is that thrown error. A fresh \<open>Error\<close>
  has no \<open>code\<close> property.
\<close>

definition new_Error :: "string \<Rightarrow> js_error" where
  "new_Error msg = \<lparr>code = None, message = msg\<rparr>"

definition response_interceptor_error :: "axios_error \<Rightarrow> js_error" where
  "response_interceptor_error e =
     (if map_option err_status (ax_response e) = Some 404
      then new_Error ''Service not found. Please check if the backend is running.''
      else if map_option err_status (ax_response e) = Some 500
      then new_Error ''Internal server error. Please try again later.''
      else if ax_code e = Some ''ECONNABORTED''
      then new_Error ''Request timeout. The server may be starting up (cold start). Please wait 30 seconds and try again.''
      else if ax_code e = Some ''ERR_NETWORK''
      then new_Error ''Network error. Please check your connection and ensure the backend is running.''
      else new_Error
        (case Option.bind (ax_response e) detail of
           Some d \<Rightarrow> if d \<noteq> [] then d
                     else if ax_message e \<noteq> [] then ax_message e
                     else ''An unexpected error occurred''
         | None \<Rightarrow> if ax_message e \<noteq> [] then ax_message e
                   else ''An unexpected error occurred''))"

text \<open>
  One awaited call on the instance, \<open>(await api.post(...)).data\<close>: the request goes out,
  the response interceptor passes a response through and replaces an error.
\<close>

definition send :: "transport \<Rightarrow> http_request \<Rightarrow> js_object outcome" where
  "send net req =
     (case net req of
        Inr response \<Rightarrow> Resolved (body response)
      | Inl e \<Rightarrow> Rejected (response_interceptor_error e))"

text \<open>
  The result of a run of \<open>retryRequest\<close>: how the returned promise settles, the delays
  slept through (\<open>setTimeout(resolve, delay)\<close>, in milliseconds, oldest first) and the
  number of times \<open>fn\<close> was called.
\<close>

record 'a retry_run =
  settled :: "'a outcome"
  sleeps :: "rat list"
  attempts :: nat

definition retryable :: "js_error \<Rightarrow> bool" where
  "retryable e = (code e = Some ''ERR_NETWORK'' \<or> code e = Some ''ECONNABORTED'')"

text \<open>
  \<open>retryRequest(fn, retries, delay)\<close>. \<open>fn\<close> is called afresh on every attempt and may
  settle differently each time: \<open>fn i\<close> is the settlement of its call number \<open>i\<close>,
  counted from the call this activation makes. The recursive call gets
  \<open>retries - 1\<close> and \<open>delay * 1.5\<close>.
\<close>

function retryRequest :: "(nat \<Rightarrow> 'a outcome) \<Rightarrow> int \<Rightarrow> rat \<Rightarrow> 'a retry_run" where
  "retryRequest fn retries delay =
     (case fn 0 of
        Resolved v \<Rightarrow> \<lparr>settled = Resolved v, sleeps = [], attempts = 1\<rparr>
      | Rejected e \<Rightarrow>
          if retries > 0 \<and> retryable e
          then (let r = retryRequest (\<lambda>i. fn (Suc i)) (retries - 1) (delay * (3 / 2))
                in r\<lparr>sleeps := delay # sleeps r, attempts := Suc (attempts r)\<rparr>)
          else \<lparr>settled = Rejected e, sleeps = [], attempts = 1\<rparr>)"
  by pat_completeness auto
termination
  by (relation "measure (\<lambda>(fn, retries, delay). nat retries)") auto

text \<open>The default arguments \<open>retries = 2, delay = 2000\<close>.\<close>

definition retryRequest_default :: "(nat \<Rightarrow> 'a outcome) \<Rightarrow> 'a retry_run" where
  "retryRequest_default fn = retryRequest fn 2 2000"

text \<open>The six exported operations, each with the request it builds.\<close>

definition uploadFile_request :: "string option \<Rightarrow> js_file \<Rightarrow> http_request" where
  "uploadFile_request env f =
     api_post env ''/upload'' (FormData [(''file'', f)])
       (no_config\<lparr>cfg_headers := [(''Content-Type'', ''multipart/form-data'')]\<rparr>)"

definition uploadFile :: "string option \<Rightarrow> transport \<Rightarrow> js_file \<Rightarrow> js_object outcome" where
  "uploadFile env net f = send net (uploadFile_request env f)"

definition analyzeImage_request :: "string option \<Rightarrow> string \<Rightarrow> http_request" where
  "analyzeImage_request env fileId =
     api_post env ''/analyze'' NoData (no_config\<lparr>cfg_params := [(''file_id'', fileId)]\<rparr>)"

definition analyzeImage :: "string option \<Rightarrow> transport \<Rightarrow> string \<Rightarrow> js_object outcome" where
  "analyzeImage env net fileId = send net (analyzeImage_request env fileId)"

definition getRecommendations_request :: "string option \<Rightarrow> js_object \<Rightarrow> http_request" where
  "getRecommendations_request env analysisData =
     api_post env ''/recommend'' (JsonData analysisData) no_config"

definition getRecommendations :: "string option \<Rightarrow> transport \<Rightarrow> js_object \<Rightarrow> js_object outcome" where
  "getRecommendations env net analysisData = send net (getRecommendations_request env analysisData)"

definition analyzeAndRecommend_request :: "string option \<Rightarrow> string \<Rightarrow> http_request" where
  "analyzeAndRecommend_request env fileId =
     api_post env ''/analyze-and-recommend'' NoData
       (no_config\<lparr>cfg_params := [(''file_id'', fileId)]\<rparr>)"

text \<open>
  \<open>analyzeAndRecommend\<close> passes its request, as a function, to \<open>retryRequest\<close> with the
  default arguments; \<open>net i\<close> is the network's answer to attempt \<open>i\<close>.
\<close>

definition analyzeAndRecommend ::
    "string option \<Rightarrow> (nat \<Rightarrow> transport) \<Rightarrow> string \<Rightarrow> js_object retry_run" where
  "analyzeAndRecommend env net fileId =
     retryRequest_default (\<lambda>i. send (net i) (analyzeAndRecommend_request env fileId))"

definition cleanupFile_request :: "string option \<Rightarrow> string \<Rightarrow> http_request" where
  "cleanupFile_request env fileId = api_delete env (''/cleanup/'' @ fileId)"

definition cleanupFile :: "string option \<Rightarrow> transport \<Rightarrow> string \<Rightarrow> js_object outcome" where
  "cleanupFile env net fileId = send net (cleanupFile_request env fileId)"

definition healthCheck_request :: "string option \<Rightarrow> http_request" where
  "healthCheck_request env = api_get env ''/''"

definition healthCheck :: "string option \<Rightarrow> transport \<Rightarrow> js_object outcome" where
  "healthCheck env net = send net (healthCheck_request env)"

text \<open>The module's export list, each export with its arguments, and the request of each.\<close>

datatype api_operation =
    UploadFile js_file
  | AnalyzeImage string
  | GetRecommendations js_object
  | AnalyzeAndRecommend string
  | CleanupFile string
  | HealthCheck

fun request_of :: "string option \<Rightarrow> api_operation \<Rightarrow> http_request" where
  "request_of env (UploadFile f) = uploadFile_request env f"
| "request_of env (AnalyzeImage fileId) = analyzeImage_request env fileId"
| "request_of env (GetRecommendations analysisData) = getRecommendations_request env analysisData"
| "request_of env (AnalyzeAndRecommend fileId) = analyzeAndRecommend_request env fileId"
| "request_of env (CleanupFile fileId) = cleanupFile_request env fileId"
| "request_of env HealthCheck = healthCheck_request env"

section \<open>App.jsx\<close>

text \<open>Source: the \<open>App\<close> component (\<open>unnamed/part_001\<close>), its state and \<open>handleAnalyze\<close>.\<close>

text \<open>
  The state of the \<open>App\<close> component, one field for each \<open>useState\<close>. \<open>null\<close> is
  \<open>None\<close>; \<open>analysisData\<close> and \<open>recommendations\<close> are also \<open>None\<close> when they are set
  to a property the response does not have (\<open>undefined\<close>).
\<close>

record app_state =
  uploadedFile :: "js_file option"
  fileId :: "string option"
  analysisData :: "json option"
  recommendations :: "json option"
  loading :: bool
  error :: "string option"
  currentStep :: string

definition initial_app_state :: app_state where
  "initial_app_state =
     \<lparr>uploadedFile = None, fileId = None, analysisData = None, recommendations = None,
      loading = False, error = None, currentStep = ''upload''\<rparr>"

text \<open>
  \<open>handleAnalyze\<close>. The guard \<open>if (!fileId) return\<close> leaves on \<open>null\<close> and on the empty
  string. Otherwise the handler sets \<open>loading\<close>, clears the error, moves to the step
  \<open>analysis\<close> and awaits \<open>analyzeAndRecommend(fileId)\<close>; on a result it stores
  \<open>result.analysis\<close> and \<open>result.recommendations\<close> and moves to \<open>results\<close>; on a
  rejection it stores \<open>err.message || 'Analysis failed. Please try again.'\<close> and moves
  back to \<open>preview\<close>; the \<open>finally\<close> block resets \<open>loading\<close>.
  The second component of the result is the settlement of the awaited call, \<open>None\<close> when
  the handler returned without making it.
\<close>

definition handleAnalyze ::
    "string option \<Rightarrow> (nat \<Rightarrow> transport) \<Rightarrow> app_state
      \<Rightarrow> app_state \<times> js_object outcome option" where
  "handleAnalyze env net s =
     (case fileId s of
        None \<Rightarrow> (s, None)
      | Some fid \<Rightarrow>
          if fid = [] then (s, None)
          else
            (let s1 = s\<lparr>loading := True, error := None, currentStep := ''analysis''\<rparr>;
                 awaited = settled (analyzeAndRecommend env net fid)
             in case awaited of
                  Resolved result \<Rightarrow>
                    (s1\<lparr>analysisData := property result ''analysis'',
                        recommendations := property result ''recommendations'',
                        currentStep := ''results'',
                        loading := False\<rparr>, Some awaited)
                | Rejected err \<Rightarrow>
                    (s1\<lparr>error := Some (if message err \<noteq> [] then message err
                                       else ''Analysis failed. Please try again.''),
                        currentStep := ''preview'',
                        loading := False\<rparr>, Some awaited)))"

section \<open>ImagePreview.jsx\<close>

text \<open>Source: the \<open>ImagePreview\<close> component (\<open>unnamed/part_002\<close>), \<open>formatFileSize\<close>.\<close>









section \<open>backend/main.py\<close>

text \<open>
  Source: the backend module as \<open>DEPLOYMENT_GUIDE.md\<close> gives it (step 3.1, lines 219 to
  294): \<open>cleanup_file\<close>, \<open>analyze_and_recommend\<close> and \<open>periodic_cleanup\<close>.
\<close>

text \<open>
  Exceptions of the backend. All of them are instances of Python's \<open>Exception\<close>, the
  class that the clauses \<open>except Exception\<close> of this module catch: the errors of the
  \<open>os\<close> functions, and \<open>Exception msg\<close> for whatever else the face analyzer or the
  recommendation client raises. Signals below \<open>BaseException\<close> only (task cancellation,
  interpreter exit) are not errors of a request and are not part of the model.
\<close>

datatype py_exception =
    FileNotFoundError string
  | IsADirectoryError string
  | NotADirectoryError string
  | PermissionError string
  | Exception string

text \<open>\<open>str(e)\<close>; the path of an \<open>OSError\<close> is printed between single quotes.\<close>

fun str :: "py_exception \<Rightarrow> string" where
  "str (FileNotFoundError p) = ''[Errno 2] No such file or directory: '' @ [CHR 0x27] @ p @ [CHR 0x27]"
| "str (IsADirectoryError p) = ''[Errno 21] Is a directory: '' @ [CHR 0x27] @ p @ [CHR 0x27]"
| "str (NotADirectoryError p) = ''[Errno 20] Not a directory: '' @ [CHR 0x27] @ p @ [CHR 0x27]"
| "str (PermissionError p) = ''[Errno 13] Permission denied: '' @ [CHR 0x27] @ p @ [CHR 0x27]"
| "str (Exception msg) = msg"

text \<open>
  The disk: each path that exists, with what is there, a regular file or a directory,
  and its modification time in seconds. A regular file also carries whether the operating
  system lets this process remove it: it refuses when the directory is not writable, when
  the file is in use or protected. The list is in the order in which a directory listing
  returns its entries; a path is looked up by its first entry. Paths are compared as they
  are written, and a removal leaves the modification time of the directory as it was.
\<close>

datatype node = File rat bool | Dir rat

fun mtime :: "node \<Rightarrow> rat" where
  "mtime (File t removable) = t"
| "mtime (Dir t) = t"

type_synonym filesystem = "(string \<times> node) list"

definition os_path_exists :: "string \<Rightarrow> filesystem \<Rightarrow> bool" where
  "os_path_exists path fs = (map_of fs path \<noteq> None)"

text \<open>
  \<open>os.remove\<close> deletes a regular file; it raises on a missing path, on a directory, and
  on a file that the operating system does not let it remove.
\<close>

definition os_remove :: "string \<Rightarrow> filesystem \<Rightarrow> py_exception + filesystem" where
  "os_remove path fs =
     (case map_of fs path of
        None \<Rightarrow> Inl (FileNotFoundError path)
      | Some (Dir _) \<Rightarrow> Inl (IsADirectoryError path)
      | Some (File _ removable) \<Rightarrow>
          if removable then Inr (filter (\<lambda>entry. fst entry \<noteq> path) fs)
          else Inl (PermissionError path))"

definition os_path_getmtime :: "string \<Rightarrow> filesystem \<Rightarrow> py_exception + rat" where
  "os_path_getmtime path fs =
     (case map_of fs path of
        None \<Rightarrow> Inl (FileNotFoundError path)
      | Some n \<Rightarrow> Inr (mtime n))"

text \<open>
  The name under which a path is listed in the directory \<open>dir\<close>: what follows
  \<open>dir/\<close>, when that is a single non-empty component.
\<close>

definition child_name :: "string \<Rightarrow> string \<Rightarrow> string option" where
  "child_name dir path =
     (if prefix (dir @ ''/'') path
      then (let name = drop (length dir + 1) path
            in if name \<noteq> [] \<and> CHR ''/'' \<notin> set name then Some name else None)
      else None)"

text \<open>The names of the entries of \<open>dir\<close>, each once, in the order of the disk.\<close>

definition dir_entries :: "string \<Rightarrow> filesystem \<Rightarrow> string list" where
  "dir_entries dir fs = remdups (List.map_filter (child_name dir) (map fst fs))"

definition os_listdir :: "string \<Rightarrow> filesystem \<Rightarrow> py_exception + string list" where
  "os_listdir dir fs =
     (case map_of fs dir of
        None \<Rightarrow> Inl (FileNotFoundError dir)
      | Some (File _ _) \<Rightarrow> Inl (NotADirectoryError dir)
      | Some (Dir _) \<Rightarrow> Inr (dir_entries dir fs))"

text \<open>\<open>os.path.join\<close> of two components.\<close>

definition os_path_join :: "string \<Rightarrow> string \<Rightarrow> string" where
  "os_path_join a b =
     (if b \<noteq> [] \<and> hd b = CHR ''/'' then b
      else if a = [] \<or> last a = CHR ''/'' then a @ b
      else a @ ''/'' @ b)"

text \<open>
  \<open>cleanup_file(file_path, delay)\<close>. Sleeping for \<open>delay\<close> seconds does not touch the
  disk. The body is guarded by \<open>os.path.exists\<close> and wrapped in \<open>try/except Exception\<close>:
  the result is the disk afterwards and the exception that was caught and printed, if any.
\<close>

definition cleanup_file :: "string \<Rightarrow> int \<Rightarrow> filesystem \<Rightarrow> filesystem \<times> py_exception option" where
  "cleanup_file file_path delay fs =
     (if os_path_exists file_path fs
      then (case os_remove file_path fs of
              Inl e \<Rightarrow> (fs, Some e)
            | Inr fs' \<Rightarrow> (fs', None))
      else (fs, None))"

text \<open>
  The \<open>finally\<close> block of the handler: \<open>if temp_path and os.path.exists(temp_path)\<close>,
  then \<open>os.remove(temp_path)\<close> inside its own \<open>try/except Exception\<close>.
\<close>

definition privacy_cleanup :: "string option \<Rightarrow> filesystem \<Rightarrow> filesystem \<times> py_exception option" where
  "privacy_cleanup temp_path fs =
     (case temp_path of
        None \<Rightarrow> (fs, None)
      | Some path \<Rightarrow>
          if path \<noteq> [] \<and> os_path_exists path fs
          then (case os_remove path fs of
                  Inl cleanup_error \<Rightarrow> (fs, Some cleanup_error)
                | Inr fs' \<Rightarrow> (fs', None))
          else (fs, None))"

text \<open>
  A run of the handler: what it returns (\<open>Inr\<close> the dictionary sent as JSON) or raises
  (\<open>Inl\<close>), the disk afterwards, and the cleanup error that the \<open>finally\<close> block caught
  and printed, if any.
\<close>

record handler_run =
  returned :: "py_exception + js_object"
  disk :: filesystem
  cleanup_failed :: "py_exception option"

text \<open>
  \<open>analyze_and_recommend(file_id)\<close>. The face analyzer and the recommendation client are
  external services: \<open>analyze_face\<close> gets the disk and the path, \<open>get_recommendations\<close>
  the analysis, and each returns a value or raises. The \<open>try\<close> block sets \<open>temp_path\<close>
  first; \<open>except Exception as e\<close> turns what was raised into the error dictionary;
  the \<open>finally\<close> block runs on every path. The parameter \<open>file_id\<close> is \<open>file_ident\<close> here.
\<close>

definition analyze_and_recommend ::
    "(filesystem \<Rightarrow> string \<Rightarrow> py_exception + json) \<Rightarrow> (json \<Rightarrow> py_exception + json)
      \<Rightarrow> string \<Rightarrow> filesystem \<Rightarrow> handler_run" where
  "analyze_and_recommend analyze_face get_recommendations file_ident fs =
     (let temp_path = ''uploads/'' @ file_ident;
          attempt =
            (case analyze_face fs temp_path of
               Inl e \<Rightarrow> Inl e
             | Inr analysis_result \<Rightarrow>
                 (case get_recommendations analysis_result of
                    Inl e \<Rightarrow> Inl e
                  | Inr recs \<Rightarrow>
                      Inr [(''analysis'', analysis_result),
                           (''recommendations'', recs),
                           (''status'', JStr ''success'')]));
          handled =
            (case attempt of
               Inl e \<Rightarrow> Inr [(''error'', JStr (str e)), (''status'', JStr ''error'')]
             | Inr response \<Rightarrow> Inr response);
          cleaned = privacy_cleanup (Some temp_path) fs
      in \<lparr>returned = handled, disk = fst cleaned, cleanup_failed = snd cleaned\<rparr>)"

text \<open>
  The loop over the listing in \<open>periodic_cleanup\<close>: for each file name, the path is
  joined, its modification time is read, and a file older than 300 seconds is removed.
  \<open>time.time()\<close> is read anew for each file: \<open>clock i\<close> is its reading in the \<open>i\<close>-th
  pass through the loop body, counted from the current one. An exception leaves the loop;
  what was deleted before stays deleted.
\<close>

fun sweep :: "(nat \<Rightarrow> rat) \<Rightarrow> string list \<Rightarrow> filesystem \<Rightarrow> filesystem \<times> py_exception option" where
  "sweep clock [] fs = (fs, None)"
| "sweep clock (filename # rest) fs =
     (let file_path = os_path_join ''uploads'' filename
      in case os_path_getmtime file_path fs of
           Inl e \<Rightarrow> (fs, Some e)
         | Inr modified \<Rightarrow>
             if modified < clock 0 - 300
             then (case os_remove file_path fs of
                     Inl e \<Rightarrow> (fs, Some e)
                   | Inr fs' \<Rightarrow> sweep (\<lambda>i. clock (Suc i)) rest fs')
             else sweep (\<lambda>i. clock (Suc i)) rest fs)"

text \<open>
  One round of \<open>periodic_cleanup\<close>, the body of its \<open>while True\<close> loop: the \<open>try\<close> block
  checks that the uploads directory exists, lists it and runs the loop;
  \<open>except Exception\<close> catches and prints. The task repeats the round after
  \<open>asyncio.sleep(300)\<close>, without end. Neither the round nor the handler's \<open>finally\<close>
  block awaits between its check and its deletion.
\<close>

definition periodic_cleanup_round :: "(nat \<Rightarrow> rat) \<Rightarrow> filesystem \<Rightarrow> filesystem \<times> py_exception option" where
  "periodic_cleanup_round clock fs =
     (let uploads_dir = ''uploads''
      in if os_path_exists uploads_dir fs
         then (case os_listdir uploads_dir fs of
                 Inl e \<Rightarrow> (fs, Some e)
               | Inr names \<Rightarrow> sweep clock names fs)
         else (fs, None))"

section \<open>Upload validation\<close>

text \<open>
  Claim C3. A file is rejected by the upload component (no upload request is issued and an
  error message is shown) if and only if its MIME type does not start with \<open>image/\<close> or
  its size exceeds \<open>10 * 1024 * 1024\<close> bytes; a rejected file never reaches the
  \<open>onFileUpload\<close> callback; and an image file of exactly \<open>10 * 1024 * 1024\<close> bytes
  passes validation.
\<close>

theorem upload_rejected_iff_invalid:
  "((requests (handleFileUpload up f s) = requests s
       \<and> upload_error (handleFileUpload up f s) \<noteq> None)
      \<longleftrightarrow> (\<not> prefix ''image/'' (file_type f) \<or> file_size f > 10 * 1024 * 1024))
   \<and> (isl (validateFile f)
      \<longleftrightarrow> (\<not> prefix ''image/'' (file_type f) \<or> file_size f > 10 * 1024 * 1024))
   \<and> ((\<not> prefix ''image/'' (file_type f) \<or> file_size f > 10 * 1024 * 1024)
      \<longrightarrow> callbacks (handleFileUpload up f s) = callbacks s
        \<and> upload_error (handleFileUpload up f s) = Some (projl (validateFile f)))
   \<and> (prefix ''image/'' (file_type f) \<and> file_size f = 10 * 1024 * 1024
      \<longrightarrow> validateFile f = Inr True)"
  by (auto simp: handleFileUpload_def validateFile_def startsWith_def Let_def
      split: sum.splits outcome.splits)

theorem upload_rejected_iff_invalid_witness:
  "requests (handleFileUpload (\<lambda>_. Resolved \<lparr>file_id = ''f1''\<rparr>)
       \<lparr>file_name = ''notes.txt'', file_type = ''text/plain'', file_size = 5\<rparr>
       \<lparr>uploading = False, upload_error = None, requests = [], callbacks = []\<rparr>) = []
   \<and> upload_error (handleFileUpload (\<lambda>_. Resolved \<lparr>file_id = ''f1''\<rparr>)
       \<lparr>file_name = ''notes.txt'', file_type = ''text/plain'', file_size = 5\<rparr>
       \<lparr>uploading = False, upload_error = None, requests = [], callbacks = []\<rparr>)
     = Some ''Please select an image file''
   \<and> callbacks (handleFileUpload (\<lambda>_. Resolved \<lparr>file_id = ''f1''\<rparr>)
       \<lparr>file_name = ''notes.txt'', file_type = ''text/plain'', file_size = 5\<rparr>
       \<lparr>uploading = False, upload_error = None, requests = [], callbacks = []\<rparr>) = []
   \<and> validateFile \<lparr>file_name = ''me.png'', file_type = ''image/png'',
         file_size = 10 * 1024 * 1024\<rparr> = Inr True"
  using upload_rejected_iff_invalid
      [of "\<lambda>_. Resolved \<lparr>file_id = ''f1''\<rparr>"
          "\<lparr>file_name = ''notes.txt'', file_type = ''text/plain'', file_size = 5\<rparr>"
          "\<lparr>uploading = False, upload_error = None, requests = [], callbacks = []\<rparr>"]
    upload_rejected_iff_invalid
      [of "\<lambda>_. Resolved \<lparr>file_id = ''f1''\<rparr>"
          "\<lparr>file_name = ''me.png'', file_type = ''image/png'',
             file_size = 10 * 1024 * 1024\<rparr>"
          "\<lparr>uploading = False, upload_error = None, requests = [], callbacks = []\<rparr>"]
  by (simp add: validateFile_def startsWith_def)

section \<open>The retry helper\<close>

lemma retryRequest_attempts_le: "attempts (retryRequest fn n d) \<le> nat n + 1"
proof (induction fn n d rule: retryRequest.induct)
  case (1 fn retries delay)
  show ?case
  proof (cases "fn 0")
    case (Resolved v)
    then show ?thesis by (subst retryRequest.simps) simp
  next
    case (Rejected e)
    show ?thesis
    proof (cases "retries > 0 \<and> retryable e")
      case True
      with 1 Rejected have "attempts (retryRequest (\<lambda>i. fn (Suc i)) (retries - 1) (delay * (3 / 2))) \<le> nat (retries - 1) + 1"
        by simp
      with True Rejected show ?thesis
        by (subst retryRequest.simps) (simp add: Let_def nat_diff_distrib)
    next
      case False
      with Rejected show ?thesis by (subst retryRequest.simps) auto
    qed
  qed
qed

lemma retryRequest_attempts_pos: "0 < attempts (retryRequest fn n d)"
  by (subst retryRequest.simps) (simp add: Let_def split: outcome.splits)

lemma retryRequest_sleeps:
  "sleeps (retryRequest fn n d) = map (\<lambda>i. d * (3 / 2) ^ i) [0..<attempts (retryRequest fn n d) - 1]"
proof (induction fn n d rule: retryRequest.induct)
  case (1 fn retries delay)
  show ?case
  proof (cases "fn 0")
    case (Resolved v)
    then show ?thesis by (subst (1 2) retryRequest.simps) simp
  next
    case (Rejected e)
    show ?thesis
    proof (cases "retries > 0 \<and> retryable e")
      case True
      let ?r = "retryRequest (\<lambda>i. fn (Suc i)) (retries - 1) (delay * (3 / 2))"
      from 1 Rejected True have IH: "sleeps ?r = map (\<lambda>i. delay * (3 / 2) * (3 / 2) ^ i) [0..<attempts ?r - 1]"
        by simp
      have eq: "retryRequest fn retries delay = ?r\<lparr>sleeps := delay # sleeps ?r, attempts := Suc (attempts ?r)\<rparr>"
        using True Rejected by (subst retryRequest.simps) (simp add: Let_def)
      have pos: "0 < attempts ?r" by (rule retryRequest_attempts_pos)
      have "[0..<attempts ?r] = 0 # map Suc [0..<attempts ?r - 1]"
        using pos by (metis Suc_pred' map_Suc_upt upt_conv_Cons)
      then show ?thesis
        unfolding eq using IH by (simp add: comp_def mult.assoc)
    next
      case False
      with Rejected show ?thesis by (subst (1 2) retryRequest.simps) auto
    qed
  qed
qed

lemma retryRequest_settled:
  "settled (retryRequest fn n d) = fn (attempts (retryRequest fn n d) - 1)"
proof (induction fn n d rule: retryRequest.induct)
  case (1 fn retries delay)
  show ?case
  proof (cases "fn 0")
    case (Resolved v)
    then show ?thesis by (subst (1 2) retryRequest.simps) simp
  next
    case (Rejected e)
    show ?thesis
    proof (cases "retries > 0 \<and> retryable e")
      case True
      let ?r = "retryRequest (\<lambda>i. fn (Suc i)) (retries - 1) (delay * (3 / 2))"
      from 1 Rejected True have IH: "settled ?r = fn (Suc (attempts ?r - 1))"
        by simp
      have eq: "retryRequest fn retries delay = ?r\<lparr>sleeps := delay # sleeps ?r, attempts := Suc (attempts ?r)\<rparr>"
        using True Rejected by (subst retryRequest.simps) (simp add: Let_def)
      have pos: "0 < attempts ?r" by (rule retryRequest_attempts_pos)
      show ?thesis
        unfolding eq using IH pos by simp
    next
      case False
      with Rejected show ?thesis by (subst (1 2) retryRequest.simps) auto
    qed
  qed
qed

lemma retryRequest_retried:
  "i < attempts (retryRequest fn n d) - 1 \<Longrightarrow> \<exists>e. fn i = Rejected e \<and> retryable e"
proof (induction fn n d arbitrary: i rule: retryRequest.induct)
  case (1 fn retries delay)
  show ?case
  proof (cases "fn 0")
    case (Resolved v)
    with 1(2) show ?thesis by (subst (asm) retryRequest.simps) simp
  next
    case (Rejected e)
    show ?thesis
    proof (cases "retries > 0 \<and> retryable e")
      case True
      let ?r = "retryRequest (\<lambda>i. fn (Suc i)) (retries - 1) (delay * (3 / 2))"
      have eq: "retryRequest fn retries delay = ?r\<lparr>sleeps := delay # sleeps ?r, attempts := Suc (attempts ?r)\<rparr>"
        using True Rejected by (subst retryRequest.simps) (simp add: Let_def)
      show ?thesis
      proof (cases i)
        case 0
        with Rejected True show ?thesis by simp
      next
        case (Suc j)
        with 1(2) have "j < attempts ?r - 1" unfolding eq by simp
        with 1(1)[OF Rejected True] Suc show ?thesis by simp
      qed
    next
      case False
      with Rejected 1(2) show ?thesis by (subst (asm) retryRequest.simps) auto
    qed
  qed
qed

text \<open>
  What reaches \<open>retryRequest\<close> from the shared axios instance has been through the
  response interceptor, which rethrows every error as a fresh \<open>Error\<close> without a \<open>code\<close>.
  At its one call site, in \<open>analyzeAndRecommend\<close>, the retry branch is therefore never
  taken: the request is attempted once.
\<close>

lemma interceptor_no_code: "code (response_interceptor_error e) = None"
  by (simp add: response_interceptor_error_def new_Error_def)

lemma analyzeAndRecommend_single_attempt:
  "attempts (analyzeAndRecommend env net fid) = 1 \<and> sleeps (analyzeAndRecommend env net fid) = []"
  unfolding analyzeAndRecommend_def retryRequest_default_def
  by (subst (1 2) retryRequest.simps)
     (simp add: send_def retryable_def interceptor_no_code split: sum.splits)


text \<open>
  Claim C2. \<open>retryRequest\<close> retries a failure whose error code is \<open>ERR_NETWORK\<close> or
  \<open>ECONNABORTED\<close> after sleeping for the current delay, handing the next activation one
  retry less and the delay multiplied by 1.5; any other failure is rethrown at once, with
  no sleep and no further call. With the default arguments there are at most two retries
  (three calls), the delays slept are the leading ones of 2000 and 3000 milliseconds, the
  promise settles as the last call did, and every call but the last failed with a
  retryable code. \<open>analyzeAndRecommend\<close> is its request wrapped in \<open>retryRequest\<close> with
  the default arguments.
\<close>

theorem retryRequest_backoff_policy:
  "(fn 0 = Rejected e \<and> retryable e \<and> 0 < retries \<longrightarrow>
      retryRequest fn retries delay =
        (let r = retryRequest (\<lambda>i. fn (Suc i)) (retries - 1) (delay * (3 / 2))
         in r\<lparr>sleeps := delay # sleeps r, attempts := Suc (attempts r)\<rparr>))
   \<and> (fn 0 = Rejected e \<and> \<not> retryable e \<longrightarrow>
      retryRequest fn retries delay = \<lparr>settled = Rejected e, sleeps = [], attempts = 1\<rparr>)
   \<and> retryable e = (code e = Some ''ERR_NETWORK'' \<or> code e = Some ''ECONNABORTED'')
   \<and> attempts (retryRequest_default fn) \<le> 3
   \<and> sleeps (retryRequest_default fn) = take (attempts (retryRequest_default fn) - 1) [2000, 3000]
   \<and> settled (retryRequest_default fn) = fn (attempts (retryRequest_default fn) - 1)
   \<and> (\<forall>i. i < attempts (retryRequest_default fn) - 1 \<longrightarrow> (\<exists>e'. fn i = Rejected e' \<and> retryable e'))
   \<and> (fn 0 = Rejected e \<and> retryable e \<and> fn 1 = Rejected e_next \<and> retryable e_next \<longrightarrow>
        retryRequest_default fn = \<lparr>settled = fn 2, sleeps = [2000, 3000], attempts = 3\<rparr>)
   \<and> (fn 0 = Rejected e \<and> retryable e \<and> (fn 1 = Resolved v \<or> fn 1 = Rejected e_next \<and> \<not> retryable e_next) \<longrightarrow>
        retryRequest_default fn = \<lparr>settled = fn 1, sleeps = [2000], attempts = 2\<rparr>)
   \<and> analyzeAndRecommend env net fid =
       retryRequest (\<lambda>i. send (net i) (request_of env (AnalyzeAndRecommend fid))) 2 2000"
proof -
  let ?r = "retryRequest_default fn"
  have a: "attempts ?r \<le> 3"
    unfolding retryRequest_default_def using retryRequest_attempts_le [of fn 2 2000] by simp
  have p: "0 < attempts ?r"
    unfolding retryRequest_default_def by (rule retryRequest_attempts_pos)
  have "attempts ?r = 1 \<or> attempts ?r = 2 \<or> attempts ?r = 3"
    using a p by arith
  moreover have "sleeps ?r = map (\<lambda>i. 2000 * (3 / 2) ^ i) [0..<attempts ?r - 1]"
    unfolding retryRequest_default_def by (rule retryRequest_sleeps)
  ultimately have s: "sleeps ?r = take (attempts ?r - 1) [2000, 3000]"
    by (elim disjE) (simp_all only: diff_self_eq_0 upt_0 list.map take_0, simp_all add: numeral_2_eq_2)
  have t: "settled ?r = fn (attempts ?r - 1)"
    unfolding retryRequest_default_def by (rule retryRequest_settled)
  have u: "\<forall>i. i < attempts ?r - 1 \<longrightarrow> (\<exists>e'. fn i = Rejected e' \<and> retryable e')"
    unfolding retryRequest_default_def using retryRequest_retried by blast
  have r1: "fn 0 = Rejected e \<and> retryable e \<and> 0 < retries \<longrightarrow>
      retryRequest fn retries delay =
        (let r = retryRequest (\<lambda>i. fn (Suc i)) (retries - 1) (delay * (3 / 2))
         in r\<lparr>sleeps := delay # sleeps r, attempts := Suc (attempts r)\<rparr>)"
    by (subst retryRequest.simps) simp
  have r2: "fn 0 = Rejected e \<and> \<not> retryable e \<longrightarrow>
      retryRequest fn retries delay = \<lparr>settled = Rejected e, sleeps = [], attempts = 1\<rparr>"
    by (subst retryRequest.simps) simp
  have w: "analyzeAndRecommend env net fid =
       retryRequest (\<lambda>i. send (net i) (request_of env (AnalyzeAndRecommend fid))) 2 2000"
    by (simp add: analyzeAndRecommend_def retryRequest_default_def)
  have d3: "fn 0 = Rejected e \<and> retryable e \<and> fn 1 = Rejected e_next \<and> retryable e_next \<longrightarrow>
        retryRequest_default fn = \<lparr>settled = fn 2, sleeps = [2000, 3000], attempts = 3\<rparr>"
    unfolding retryRequest_default_def
    by (cases "fn (Suc (Suc 0))") (simp_all add: Let_def numeral_2_eq_2)
  have d2: "fn 0 = Rejected e \<and> retryable e \<and> (fn 1 = Resolved v \<or> fn 1 = Rejected e_next \<and> \<not> retryable e_next) \<longrightarrow>
        retryRequest_default fn = \<lparr>settled = fn 1, sleeps = [2000], attempts = 2\<rparr>"
    unfolding retryRequest_default_def
    by (auto simp: Let_def)
  show ?thesis
    using a s t u r1 r2 d3 d2 w by (simp only: retryable_def simp_thms)
qed

theorem retryRequest_backoff_policy_witness:
  "retryRequest
      (\<lambda>i. if i < 2 then Rejected \<lparr>code = Some ''ERR_NETWORK'', message = ''Network Error''\<rparr>
            else Resolved (7::nat)) 2 2000
     = \<lparr>settled = Resolved 7, sleeps = [2000, 3000], attempts = 3\<rparr>
   \<and> retryRequest
      (\<lambda>i. if i < 1 then Rejected \<lparr>code = Some ''ECONNABORTED'', message = ''timeout''\<rparr>
            else Resolved (7::nat)) 2 2000
     = \<lparr>settled = Resolved 7, sleeps = [2000], attempts = 2\<rparr>
   \<and> retryRequest
      (\<lambda>i. if i < 1 then Rejected \<lparr>code = Some ''ERR_BAD_REQUEST'', message = ''Bad Request''\<rparr>
            else Resolved (7::nat)) 2 2000
     = \<lparr>settled = Rejected \<lparr>code = Some ''ERR_BAD_REQUEST'', message = ''Bad Request''\<rparr>,
        sleeps = [], attempts = 1\<rparr>"
  using retryRequest_backoff_policy
      [where fn = "\<lambda>i. if i < 2 then Rejected \<lparr>code = Some ''ERR_NETWORK'', message = ''Network Error''\<rparr>
            else Resolved (7::nat)"
         and e = "\<lparr>code = Some ''ERR_NETWORK'', message = ''Network Error''\<rparr>"
         and e_next = "\<lparr>code = Some ''ERR_NETWORK'', message = ''Network Error''\<rparr>"
         and retries = 2 and delay = 2000]
    retryRequest_backoff_policy
      [where fn = "\<lambda>i. if i < 1 then Rejected \<lparr>code = Some ''ECONNABORTED'', message = ''timeout''\<rparr>
            else Resolved (7::nat)"
         and e = "\<lparr>code = Some ''ECONNABORTED'', message = ''timeout''\<rparr>"
         and v = 7 and retries = 2 and delay = 2000]
    retryRequest_backoff_policy
      [where fn = "\<lambda>i. if i < 1 then Rejected \<lparr>code = Some ''ERR_BAD_REQUEST'', message = ''Bad Request''\<rparr>
            else Resolved (7::nat)"
         and e = "\<lparr>code = Some ''ERR_BAD_REQUEST'', message = ''Bad Request''\<rparr>"
         and retries = 2 and delay = 2000]
  by (simp add: retryable_def retryRequest_default_def)

section \<open>The API surface\<close>

text \<open>
  Claim C7. The API surface of the frontend is six operations. Each hands one request to
  the network and settles as the network answers it, a response resolving to its body and
  an error rejecting through the response interceptor: \<open>uploadFile\<close> issues \<open>POST /upload\<close>
  with multipart form data, \<open>analyzeImage\<close> issues \<open>POST /analyze\<close> with the query
  parameter \<open>file_id\<close>, \<open>getRecommendations\<close> issues \<open>POST /recommend\<close> with the analysis
  data as body, \<open>analyzeAndRecommend\<close> issues \<open>POST /analyze-and-recommend\<close> with the query
  parameter \<open>file_id\<close>, \<open>cleanupFile\<close> issues \<open>DELETE /cleanup/{file_id}\<close> and
  \<open>healthCheck\<close> issues \<open>GET /\<close>. The methods and URLs that the operations can issue are
  these six and no other.
\<close>

theorem api_surface:
  "request_of env (UploadFile f)
     = \<lparr>req_method = POST, baseURL = API_BASE_URL env, url = ''/upload'', params = [],
         headers = [(''Content-Type'', ''multipart/form-data'')], data = FormData [(''file'', f)],
         timeout = 30000, signal = None\<rparr>
   \<and> uploadFile env net f
     = (case net (request_of env (UploadFile f)) of
          Inl e \<Rightarrow> Rejected (response_interceptor_error e)
        | Inr response \<Rightarrow> Resolved (body response))
   \<and> request_of env (AnalyzeImage fid)
     = \<lparr>req_method = POST, baseURL = API_BASE_URL env, url = ''/analyze'', params = [(''file_id'', fid)],
         headers = [(''Content-Type'', ''application/json'')], data = NoData,
         timeout = 30000, signal = None\<rparr>
   \<and> analyzeImage env net fid
     = (case net (request_of env (AnalyzeImage fid)) of
          Inl e \<Rightarrow> Rejected (response_interceptor_error e)
        | Inr response \<Rightarrow> Resolved (body response))
   \<and> request_of env (GetRecommendations adata)
     = \<lparr>req_method = POST, baseURL = API_BASE_URL env, url = ''/recommend'', params = [],
         headers = [(''Content-Type'', ''application/json'')], data = JsonData adata,
         timeout = 30000, signal = None\<rparr>
   \<and> getRecommendations env net adata
     = (case net (request_of env (GetRecommendations adata)) of
          Inl e \<Rightarrow> Rejected (response_interceptor_error e)
        | Inr response \<Rightarrow> Resolved (body response))
   \<and> request_of env (AnalyzeAndRecommend fid)
     = \<lparr>req_method = POST, baseURL = API_BASE_URL env, url = ''/analyze-and-recommend'', params = [(''file_id'', fid)],
         headers = [(''Content-Type'', ''application/json'')], data = NoData,
         timeout = 30000, signal = None\<rparr>
   \<and> analyzeAndRecommend env nets fid
     = \<lparr>settled =
          (case nets 0 (request_of env (AnalyzeAndRecommend fid)) of
              Inl e \<Rightarrow> Rejected (response_interceptor_error e)
            | Inr response \<Rightarrow> Resolved (body response)),
        sleeps = [], attempts = 1\<rparr>
   \<and> request_of env (CleanupFile fid)
     = \<lparr>req_method = DELETE, baseURL = API_BASE_URL env, url = ''/cleanup/'' @ fid, params = [],
         headers = [(''Content-Type'', ''application/json'')], data = NoData,
         timeout = 30000, signal = None\<rparr>
   \<and> cleanupFile env net fid
     = (case net (request_of env (CleanupFile fid)) of
          Inl e \<Rightarrow> Rejected (response_interceptor_error e)
        | Inr response \<Rightarrow> Resolved (body response))
   \<and> request_of env HealthCheck
     = \<lparr>req_method = GET, baseURL = API_BASE_URL env, url = ''/'', params = [],
         headers = [(''Content-Type'', ''application/json'')], data = NoData,
         timeout = 30000, signal = None\<rparr>
   \<and> healthCheck env net
     = (case net (request_of env HealthCheck) of
          Inl e \<Rightarrow> Rejected (response_interceptor_error e)
        | Inr response \<Rightarrow> Resolved (body response))
   \<and> range (\<lambda>operation. (req_method (request_of env operation), url (request_of env operation)))
     = {(POST, ''/upload''), (POST, ''/analyze''), (POST, ''/recommend''),
        (POST, ''/analyze-and-recommend''), (GET, ''/'')}
       \<union> {(DELETE, ''/cleanup/'' @ ident) | ident. True}"
proof -
  note defs = uploadFile_request_def analyzeImage_request_def getRecommendations_request_def
    analyzeAndRecommend_request_def cleanupFile_request_def healthCheck_request_def
    api_post_def api_delete_def api_get_def api_request_def no_config_def api_headers_def
    api_timeout_def
  note ops = uploadFile_def analyzeImage_def getRecommendations_def cleanupFile_def
    healthCheck_def send_def
  let ?F = "\<lambda>operation. (req_method (request_of env operation), url (request_of env operation))"
  let ?S = "{(POST, ''/upload''), (POST, ''/analyze''), (POST, ''/recommend''),
        (POST, ''/analyze-and-recommend''), (GET, ''/'')}
       \<union> {(DELETE, ''/cleanup/'' @ ident) | ident. True}"
  have r1: "request_of env (UploadFile f)
     = \<lparr>req_method = POST, baseURL = API_BASE_URL env, url = ''/upload'', params = [],
         headers = [(''Content-Type'', ''multipart/form-data'')], data = FormData [(''file'', f)],
         timeout = 30000, signal = None\<rparr>"
    by (simp add: defs)
  have r2: "request_of env (AnalyzeImage fid)
     = \<lparr>req_method = POST, baseURL = API_BASE_URL env, url = ''/analyze'', params = [(''file_id'', fid)],
         headers = [(''Content-Type'', ''application/json'')], data = NoData,
         timeout = 30000, signal = None\<rparr>"
    by (simp add: defs)
  have r3: "request_of env (GetRecommendations adata)
     = \<lparr>req_method = POST, baseURL = API_BASE_URL env, url = ''/recommend'', params = [],
         headers = [(''Content-Type'', ''application/json'')], data = JsonData adata,
         timeout = 30000, signal = None\<rparr>"
    by (simp add: defs)
  have r4: "request_of env (AnalyzeAndRecommend fid)
     = \<lparr>req_method = POST, baseURL = API_BASE_URL env, url = ''/analyze-and-recommend'', params = [(''file_id'', fid)],
         headers = [(''Content-Type'', ''application/json'')], data = NoData,
         timeout = 30000, signal = None\<rparr>"
    by (simp add: defs)
  have r5: "request_of env (CleanupFile fid)
     = \<lparr>req_method = DELETE, baseURL = API_BASE_URL env, url = ''/cleanup/'' @ fid, params = [],
         headers = [(''Content-Type'', ''application/json'')], data = NoData,
         timeout = 30000, signal = None\<rparr>"
    by (simp add: defs)
  have r6: "request_of env HealthCheck
     = \<lparr>req_method = GET, baseURL = API_BASE_URL env, url = ''/'', params = [],
         headers = [(''Content-Type'', ''application/json'')], data = NoData,
         timeout = 30000, signal = None\<rparr>"
    by (simp add: defs)
  have o1: "uploadFile env net f
     = (case net (request_of env (UploadFile f)) of
          Inl e \<Rightarrow> Rejected (response_interceptor_error e)
        | Inr response \<Rightarrow> Resolved (body response))"
    by (simp add: ops split: sum.splits)
  have o2: "analyzeImage env net fid
     = (case net (request_of env (AnalyzeImage fid)) of
          Inl e \<Rightarrow> Rejected (response_interceptor_error e)
        | Inr response \<Rightarrow> Resolved (body response))"
    by (simp add: ops split: sum.splits)
  have o3: "getRecommendations env net adata
     = (case net (request_of env (GetRecommendations adata)) of
          Inl e \<Rightarrow> Rejected (response_interceptor_error e)
        | Inr response \<Rightarrow> Resolved (body response))"
    by (simp add: ops split: sum.splits)
  have o4: "analyzeAndRecommend env nets fid
     = \<lparr>settled =
          (case nets 0 (request_of env (AnalyzeAndRecommend fid)) of
          Inl e \<Rightarrow> Rejected (response_interceptor_error e)
        | Inr response \<Rightarrow> Resolved (body response)),
        sleeps = [], attempts = 1\<rparr>"
    unfolding analyzeAndRecommend_def retryRequest_default_def
    by (subst retryRequest.simps)
       (simp add: send_def retryable_def interceptor_no_code split: sum.splits)
  have o5: "cleanupFile env net fid
     = (case net (request_of env (CleanupFile fid)) of
          Inl e \<Rightarrow> Rejected (response_interceptor_error e)
        | Inr response \<Rightarrow> Resolved (body response))"
    by (simp add: ops split: sum.splits)
  have o6: "healthCheck env net
     = (case net (request_of env HealthCheck) of
          Inl e \<Rightarrow> Rejected (response_interceptor_error e)
        | Inr response \<Rightarrow> Resolved (body response))"
    by (simp add: ops split: sum.splits)
  have sub: "range ?F \<subseteq> ?S"
  proof
    fix x assume "x \<in> range ?F"
    then obtain operation where x: "x = ?F operation" by blast
    show "x \<in> ?S" unfolding x by (cases operation) (simp_all add: defs)
  qed
  have sup: "?S \<subseteq> range ?F"
  proof
    fix x assume "x \<in> ?S"
    then consider "x = (POST, ''/upload'')" | "x = (POST, ''/analyze'')"
      | "x = (POST, ''/recommend'')" | "x = (POST, ''/analyze-and-recommend'')"
      | "x = (GET, ''/'')" | ident where "x = (DELETE, ''/cleanup/'' @ ident)"
      by blast
    then show "x \<in> range ?F"
    proof cases
      case 1
      then have "x = ?F (UploadFile undefined)" by (simp add: defs)
      then show ?thesis by (rule range_eqI)
    next
      case 2
      then have "x = ?F (AnalyzeImage [])" by (simp add: defs)
      then show ?thesis by (rule range_eqI)
    next
      case 3
      then have "x = ?F (GetRecommendations [])" by (simp add: defs)
      then show ?thesis by (rule range_eqI)
    next
      case 4
      then have "x = ?F (AnalyzeAndRecommend [])" by (simp add: defs)
      then show ?thesis by (rule range_eqI)
    next
      case 5
      then have "x = ?F HealthCheck" by (simp add: defs)
      then show ?thesis by (rule range_eqI)
    next
      case 6
      then have "x = ?F (CleanupFile ident)" by (simp add: defs)
      then show ?thesis by (rule range_eqI)
    qed
  qed
  have surface: "range ?F = ?S" using sub sup by (rule equalityI)
  from r1 o1 r2 o2 r3 o3 r4 o4 r5 o5 r6 o6 surface show ?thesis by (intro conjI)
qed

text \<open>
  Claim C8. Every request of the six operations leaves the shared axios instance with a
  timeout of 30000 milliseconds and without an abort signal: the timeout is the only means
  by which a request is cancelled.
\<close>

theorem request_timeout_only_cancellation:
  "timeout (request_of env operation) = 30000 \<and> signal (request_of env operation) = None"
  by (cases operation)
     (simp_all add: uploadFile_request_def analyzeImage_request_def getRecommendations_request_def
      analyzeAndRecommend_request_def cleanupFile_request_def healthCheck_request_def
      api_post_def api_delete_def api_get_def api_request_def no_config_def api_timeout_def)

section \<open>The analyze step of the app\<close>

text \<open>
  Claim C9. For a run of \<open>handleAnalyze\<close> with a non-null \<open>fileId\<close>: if the awaited
  \<open>analyzeAndRecommend\<close> rejects, \<open>analysisData\<close> and \<open>recommendations\<close> are unchanged, the
  error message is set and \<open>currentStep\<close> is \<open>preview\<close>; if it resolves, both are set
  from the result and \<open>currentStep\<close> is \<open>results\<close>; in either case \<open>loading\<close> is false
  afterwards. The call is made for every non-empty identifier; on the empty string the
  guard returns before the call and the state, \<open>loading\<close> included, is as it was.
\<close>

theorem handleAnalyze_atomic:
  assumes "fileId s = Some fid" and "handleAnalyze env net s = (s', awaited)"
  shows "(\<forall>err. awaited = Some (Rejected err) \<longrightarrow>
            analysisData s' = analysisData s \<and> recommendations s' = recommendations s
          \<and> error s' = Some (if message err \<noteq> [] then message err
                             else ''Analysis failed. Please try again.'')
          \<and> currentStep s' = ''preview'' \<and> loading s' = False)
       \<and> (\<forall>result. awaited = Some (Resolved result) \<longrightarrow>
            analysisData s' = property result ''analysis''
          \<and> recommendations s' = property result ''recommendations''
          \<and> currentStep s' = ''results'' \<and> loading s' = False)
       \<and> (awaited = None \<longleftrightarrow> fid = [])
       \<and> (fid \<noteq> [] \<longrightarrow> awaited = Some (settled (analyzeAndRecommend env net fid)))
       \<and> (fid = [] \<longrightarrow> s' = s)
       \<and> loading s' = (fid = [] \<and> loading s)"
  using assms
  by (auto simp: handleAnalyze_def Let_def split: outcome.splits if_splits)

theorem handleAnalyze_atomic_witness:
  "handleAnalyze None
      (\<lambda>i req. Inl \<lparr>ax_code = Some ''ERR_NETWORK'', ax_message = ''Network Error'', ax_response = None\<rparr>)
      (initial_app_state\<lparr>fileId := Some ''abc'', currentStep := ''preview''\<rparr>)
    = (initial_app_state\<lparr>fileId := Some ''abc'', currentStep := ''preview'',
         error := Some ''Network error. Please check your connection and ensure the backend is running.''\<rparr>,
       Some (Rejected (new_Error ''Network error. Please check your connection and ensure the backend is running.'')))
   \<and> handleAnalyze None
      (\<lambda>i req. Inr \<lparr>status = 200, body = [(''analysis'', JStr ''oval''),
          (''recommendations'', JStr ''soft blush''), (''status'', JStr ''success'')]\<rparr>)
      (initial_app_state\<lparr>fileId := Some ''abc'', currentStep := ''preview''\<rparr>)
    = (initial_app_state\<lparr>fileId := Some ''abc'', currentStep := ''results'',
         analysisData := Some (JStr ''oval''), recommendations := Some (JStr ''soft blush'')\<rparr>,
       Some (Resolved [(''analysis'', JStr ''oval''),
          (''recommendations'', JStr ''soft blush''), (''status'', JStr ''success'')]))
   \<and> handleAnalyze None
      (\<lambda>i req. Inr \<lparr>status = 200, body = [(''analysis'', JStr ''oval''),
          (''recommendations'', JStr ''soft blush''), (''status'', JStr ''success'')]\<rparr>)
      (initial_app_state\<lparr>fileId := Some [], currentStep := ''preview''\<rparr>)
    = ((initial_app_state\<lparr>fileId := Some [], currentStep := ''preview''\<rparr>), None)"
  using handleAnalyze_atomic
      [where s = "(initial_app_state\<lparr>fileId := Some ''abc'', currentStep := ''preview''\<rparr>)" and fid = "''abc''" and env = None
         and net = "(\<lambda>i req. Inl \<lparr>ax_code = Some ''ERR_NETWORK'', ax_message = ''Network Error'', ax_response = None\<rparr>)"
         and s' = "fst (handleAnalyze None
      (\<lambda>i req. Inl \<lparr>ax_code = Some ''ERR_NETWORK'', ax_message = ''Network Error'', ax_response = None\<rparr>)
      (initial_app_state\<lparr>fileId := Some ''abc'', currentStep := ''preview''\<rparr>))"
         and awaited = "snd (handleAnalyze None
      (\<lambda>i req. Inl \<lparr>ax_code = Some ''ERR_NETWORK'', ax_message = ''Network Error'', ax_response = None\<rparr>)
      (initial_app_state\<lparr>fileId := Some ''abc'', currentStep := ''preview''\<rparr>))"]
    handleAnalyze_atomic
      [where s = "(initial_app_state\<lparr>fileId := Some ''abc'', currentStep := ''preview''\<rparr>)" and fid = "''abc''" and env = None
         and net = "(\<lambda>i req. Inr \<lparr>status = 200, body = [(''analysis'', JStr ''oval''),
          (''recommendations'', JStr ''soft blush''), (''status'', JStr ''success'')]\<rparr>)"
         and s' = "fst (handleAnalyze None
      (\<lambda>i req. Inr \<lparr>status = 200, body = [(''analysis'', JStr ''oval''),
          (''recommendations'', JStr ''soft blush''), (''status'', JStr ''success'')]\<rparr>)
      (initial_app_state\<lparr>fileId := Some ''abc'', currentStep := ''preview''\<rparr>))"
         and awaited = "snd (handleAnalyze None
      (\<lambda>i req. Inr \<lparr>status = 200, body = [(''analysis'', JStr ''oval''),
          (''recommendations'', JStr ''soft blush''), (''status'', JStr ''success'')]\<rparr>)
      (initial_app_state\<lparr>fileId := Some ''abc'', currentStep := ''preview''\<rparr>))"]
    handleAnalyze_atomic
      [where s = "(initial_app_state\<lparr>fileId := Some [], currentStep := ''preview''\<rparr>)" and fid = "[]" and env = None
         and net = "(\<lambda>i req. Inr \<lparr>status = 200, body = [(''analysis'', JStr ''oval''),
          (''recommendations'', JStr ''soft blush''), (''status'', JStr ''success'')]\<rparr>)"
         and s' = "fst (handleAnalyze None
      (\<lambda>i req. Inr \<lparr>status = 200, body = [(''analysis'', JStr ''oval''),
          (''recommendations'', JStr ''soft blush''), (''status'', JStr ''success'')]\<rparr>)
      (initial_app_state\<lparr>fileId := Some [], currentStep := ''preview''\<rparr>))"
         and awaited = "snd (handleAnalyze None
      (\<lambda>i req. Inr \<lparr>status = 200, body = [(''analysis'', JStr ''oval''),
          (''recommendations'', JStr ''soft blush''), (''status'', JStr ''success'')]\<rparr>)
      (initial_app_state\<lparr>fileId := Some [], currentStep := ''preview''\<rparr>))"]
  by (simp add: handleAnalyze_def initial_app_state_def analyzeAndRecommend_def
      retryRequest_default_def send_def response_interceptor_error_def new_Error_def
      retryable_def property_def)

section \<open>File size formatting\<close>










section \<open>The combined endpoint\<close>

lemma map_of_filter_keys:
  "map_of (filter (\<lambda>entry. fst entry \<notin> S) fs) q = (if q \<in> S then None else map_of fs q)"
  by (induction fs) auto

lemma map_of_filter_key:
  "map_of (filter (\<lambda>entry. fst entry \<noteq> p) fs) q = (if q = p then None else map_of fs q)"
  using map_of_filter_keys [of "{p}" fs q] by simp

lemma os_remove_InrD:
  "os_remove p fs = Inr fs' \<Longrightarrow> fs' = filter (\<lambda>entry. fst entry \<noteq> p) fs \<and> (\<exists>m. map_of fs p = Some (File m True))"
  by (auto simp: os_remove_def split: option.splits node.splits if_splits)

lemma cleanup_file_cases:
  "cleanup_file path delay fs =
     (case map_of fs path of
        None \<Rightarrow> (fs, None)
      | Some (Dir t) \<Rightarrow> (fs, Some (IsADirectoryError path))
      | Some (File t removable) \<Rightarrow>
          if removable then (filter (\<lambda>entry. fst entry \<noteq> path) fs, None)
          else (fs, Some (PermissionError path)))"
  by (simp add: cleanup_file_def os_path_exists_def os_remove_def split: option.splits node.splits)

lemma privacy_cleanup_cases:
  "privacy_cleanup (Some path) fs =
     (if path = [] then (fs, None)
      else case map_of fs path of
        None \<Rightarrow> (fs, None)
      | Some (Dir t) \<Rightarrow> (fs, Some (IsADirectoryError path))
      | Some (File t removable) \<Rightarrow>
          if removable then (filter (\<lambda>entry. fst entry \<noteq> path) fs, None)
          else (fs, Some (PermissionError path)))"
  by (simp add: privacy_cleanup_def os_path_exists_def os_remove_def split: option.splits node.splits)

text \<open>
  The claim that the uploaded file is always gone when the handler completes fails where
  \<open>os.remove\<close> raises: the \<open>finally\<close> block catches the error and prints it, and the
  file stays on the disk while the handler returns its response as usual.
\<close>

theorem upload_outlives_request_counterexample:
  "os_path_exists ''uploads/abc''
     (disk (analyze_and_recommend (\<lambda>fs path. Inr (JStr ''oval''))
        (\<lambda>analysis. Inr (JStr ''soft blush'')) ''abc'' [(''uploads'', Dir 0), (''uploads/abc'', File 100 False)]))
   \<and> cleanup_failed (analyze_and_recommend (\<lambda>fs path. Inr (JStr ''oval''))
        (\<lambda>analysis. Inr (JStr ''soft blush'')) ''abc'' [(''uploads'', Dir 0), (''uploads/abc'', File 100 False)])
     = Some (PermissionError ''uploads/abc'')
   \<and> returned (analyze_and_recommend (\<lambda>fs path. Inr (JStr ''oval''))
        (\<lambda>analysis. Inr (JStr ''soft blush'')) ''abc'' [(''uploads'', Dir 0), (''uploads/abc'', File 100 False)])
     = Inr [(''analysis'', JStr ''oval''), (''recommendations'', JStr ''soft blush''),
            (''status'', JStr ''success'')]"
  by (simp add: analyze_and_recommend_def privacy_cleanup_def os_path_exists_def os_remove_def
      Let_def)

text \<open>
  Claim C1, as amended. When the handler of the combined endpoint runs for an uploaded
  file that exists, its \<open>finally\<close> block tries to delete the file on the success path as
  on the error path, whatever the face analyzer and the recommendation client do. If
  \<open>os.remove\<close> succeeds, the file is no longer on the disk when the handler completes and
  no cleanup error is caught. If \<open>os.remove\<close> raises, the error is caught, the disk is as
  it was and the file is still there. In both cases the handler returns a dictionary.
\<close>

theorem upload_deleted_unless_remove_fails:
  assumes "map_of fs (''uploads/'' @ file_ident) = Some (File m removable)"
  shows "(removable \<longrightarrow>
            \<not> os_path_exists (''uploads/'' @ file_ident)
                (disk (analyze_and_recommend analyze_face get_recommendations file_ident fs))
          \<and> cleanup_failed (analyze_and_recommend analyze_face get_recommendations file_ident fs)
              = None)
       \<and> (\<not> removable \<longrightarrow>
            os_path_exists (''uploads/'' @ file_ident)
                (disk (analyze_and_recommend analyze_face get_recommendations file_ident fs))
          \<and> disk (analyze_and_recommend analyze_face get_recommendations file_ident fs) = fs
          \<and> cleanup_failed (analyze_and_recommend analyze_face get_recommendations file_ident fs)
              = Some (PermissionError (''uploads/'' @ file_ident)))
       \<and> (\<exists>response.
            returned (analyze_and_recommend analyze_face get_recommendations file_ident fs)
              = Inr response)"
proof -
  have cleaned: "privacy_cleanup (Some (''uploads/'' @ file_ident)) fs
          = (if removable then (filter (\<lambda>entry. fst entry \<noteq> ''uploads/'' @ file_ident) fs, None)
             else (fs, Some (PermissionError (''uploads/'' @ file_ident))))"
    using assms by (simp add: privacy_cleanup_cases)
  have ret: "\<exists>response.
            returned (analyze_and_recommend analyze_face get_recommendations file_ident fs)
              = Inr response"
    by (simp add: analyze_and_recommend_def Let_def split: sum.splits)
  from cleaned assms ret show ?thesis
    by (simp add: analyze_and_recommend_def Let_def os_path_exists_def map_of_filter_key)
qed

theorem upload_deleted_unless_remove_fails_witness:
  "disk (analyze_and_recommend (\<lambda>fs path. Inl (Exception ''No face detected''))
       (\<lambda>analysis. Inr (JStr ''soft blush'')) ''abc'' [(''uploads'', Dir 0), (''uploads/abc'', File 100 True)]) = [(''uploads'', Dir 0)]
   \<and> disk (analyze_and_recommend (\<lambda>fs path. Inr (JStr ''oval''))
       (\<lambda>analysis. Inr (JStr ''soft blush'')) ''abc'' [(''uploads'', Dir 0), (''uploads/abc'', File 100 True)]) = [(''uploads'', Dir 0)]
   \<and> \<not> os_path_exists ''uploads/abc'' [(''uploads'', Dir 0)]
   \<and> disk (analyze_and_recommend (\<lambda>fs path. Inl (Exception ''No face detected''))
       (\<lambda>analysis. Inr (JStr ''soft blush'')) ''abc'' [(''uploads'', Dir 0), (''uploads/abc'', File 100 False)]) = [(''uploads'', Dir 0), (''uploads/abc'', File 100 False)]
   \<and> cleanup_failed (analyze_and_recommend (\<lambda>fs path. Inl (Exception ''No face detected''))
       (\<lambda>analysis. Inr (JStr ''soft blush'')) ''abc'' [(''uploads'', Dir 0), (''uploads/abc'', File 100 False)])
     = Some (PermissionError ''uploads/abc'')"
  using upload_deleted_unless_remove_fails
      [where fs = "[(''uploads'', Dir 0), (''uploads/abc'', File 100 True)]" and file_ident = "''abc''" and m = 100 and removable = True
         and analyze_face = "\<lambda>fs path. Inl (Exception ''No face detected'')"
         and get_recommendations = "\<lambda>analysis. Inr (JStr ''soft blush'')"]
    upload_deleted_unless_remove_fails
      [where fs = "[(''uploads'', Dir 0), (''uploads/abc'', File 100 True)]" and file_ident = "''abc''" and m = 100 and removable = True
         and analyze_face = "\<lambda>fs path. Inr (JStr ''oval'')"
         and get_recommendations = "\<lambda>analysis. Inr (JStr ''soft blush'')"]
    upload_deleted_unless_remove_fails
      [where fs = "[(''uploads'', Dir 0), (''uploads/abc'', File 100 False)]" and file_ident = "''abc''" and m = 100 and removable = False
         and analyze_face = "\<lambda>fs path. Inl (Exception ''No face detected'')"
         and get_recommendations = "\<lambda>analysis. Inr (JStr ''soft blush'')"]
  by (simp add: analyze_and_recommend_def privacy_cleanup_def os_path_exists_def os_remove_def
      Let_def)



text \<open>
  Claim C4. When both services succeed, the handler returns the dictionary with the
  fields \<open>analysis\<close>, \<open>recommendations\<close> and \<open>status\<close>, \<open>success\<close>. The frontend, given
  that response, stores its \<open>analysis\<close> and its \<open>recommendations\<close>; and two responses
  that agree on these two fields leave the app in the same state: no other field is read.
\<close>

theorem combined_response_fields:
  "(analyze_face fs (''uploads/'' @ file_ident) = Inr a \<and> get_recommendations a = Inr r \<longrightarrow>
      returned (analyze_and_recommend analyze_face get_recommendations file_ident fs)
        = Inr [(''analysis'', a), (''recommendations'', r), (''status'', JStr ''success'')])
   \<and> (fileId s = Some fid \<and> fid \<noteq> []
       \<and> settled (analyzeAndRecommend env net fid)
           = Resolved [(''analysis'', a), (''recommendations'', r), (''status'', JStr ''success'')]
       \<longrightarrow> analysisData (fst (handleAnalyze env net s)) = Some a
         \<and> recommendations (fst (handleAnalyze env net s)) = Some r
         \<and> currentStep (fst (handleAnalyze env net s)) = ''results'')
   \<and> (fileId s = Some fid
       \<and> settled (analyzeAndRecommend env net fid) = Resolved result
       \<and> settled (analyzeAndRecommend env net' fid) = Resolved result'
       \<and> property result ''analysis'' = property result' ''analysis''
       \<and> property result ''recommendations'' = property result' ''recommendations''
       \<longrightarrow> fst (handleAnalyze env net s) = fst (handleAnalyze env net' s))"
  by (auto simp: analyze_and_recommend_def handleAnalyze_def Let_def property_def
      split: sum.splits outcome.splits)

theorem combined_response_fields_witness:
  "returned (analyze_and_recommend (\<lambda>fs path. Inr (JStr ''oval''))
       (\<lambda>analysis. Inr (JStr ''soft blush'')) ''abc'' [(''uploads'', Dir 0), (''uploads/abc'', File 100 True)])
     = Inr [(''analysis'', JStr ''oval''), (''recommendations'', JStr ''soft blush''),
            (''status'', JStr ''success'')]
   \<and> analysisData (fst (handleAnalyze None
        (\<lambda>i req. Inr \<lparr>status = 200, body = [(''analysis'', JStr ''oval''),
           (''recommendations'', JStr ''soft blush''), (''status'', JStr ''success'')]\<rparr>)
        (initial_app_state\<lparr>fileId := Some ''abc'', currentStep := ''preview''\<rparr>)))
     = Some (JStr ''oval'')
   \<and> recommendations (fst (handleAnalyze None
        (\<lambda>i req. Inr \<lparr>status = 200, body = [(''analysis'', JStr ''oval''),
           (''recommendations'', JStr ''soft blush''), (''status'', JStr ''success'')]\<rparr>)
        (initial_app_state\<lparr>fileId := Some ''abc'', currentStep := ''preview''\<rparr>)))
     = Some (JStr ''soft blush'')
   \<and> fst (handleAnalyze None
        (\<lambda>i req. Inr \<lparr>status = 200, body = [(''analysis'', JStr ''oval''),
           (''recommendations'', JStr ''soft blush''), (''status'', JStr ''success'')]\<rparr>)
        (initial_app_state\<lparr>fileId := Some ''abc'', currentStep := ''preview''\<rparr>))
     = fst (handleAnalyze None
        (\<lambda>i req. Inr \<lparr>status = 200, body = [(''analysis'', JStr ''oval''),
           (''recommendations'', JStr ''soft blush''), (''extra'', JNull)]\<rparr>)
        (initial_app_state\<lparr>fileId := Some ''abc'', currentStep := ''preview''\<rparr>))"
  using combined_response_fields
      [of "\<lambda>fs path. Inr (JStr ''oval'')" "[(''uploads'', Dir 0), (''uploads/abc'', File 100 True)]" "''abc''" "JStr ''oval''"
          "\<lambda>analysis. Inr (JStr ''soft blush'')" "JStr ''soft blush''"
          "initial_app_state\<lparr>fileId := Some ''abc'', currentStep := ''preview''\<rparr>" "''abc''"
          None
          "\<lambda>i req. Inr \<lparr>status = 200, body = [(''analysis'', JStr ''oval''),
             (''recommendations'', JStr ''soft blush''), (''status'', JStr ''success'')]\<rparr>"
          "[(''analysis'', JStr ''oval''),
             (''recommendations'', JStr ''soft blush''), (''status'', JStr ''success'')]"
          "\<lambda>i req. Inr \<lparr>status = 200, body = [(''analysis'', JStr ''oval''),
             (''recommendations'', JStr ''soft blush''), (''extra'', JNull)]\<rparr>"
          "[(''analysis'', JStr ''oval''),
             (''recommendations'', JStr ''soft blush''), (''extra'', JNull)]"]
  by (simp add: analyzeAndRecommend_def retryRequest_default_def send_def property_def
      initial_app_state_def handleAnalyze_def analyze_and_recommend_def)

section \<open>Deleting twice\<close>

lemma uploads_join: "name \<noteq> [] \<Longrightarrow> CHR ''/'' \<notin> set name \<Longrightarrow> os_path_join ''uploads'' name = ''uploads/'' @ name"
  by (cases name) (auto simp: os_path_join_def)

lemma child_name_SomeD:
  "child_name dir path = Some name \<Longrightarrow> path = dir @ ''/'' @ name \<and> name \<noteq> [] \<and> CHR ''/'' \<notin> set name"
  by (auto simp: child_name_def Let_def prefix_def split: if_splits)

lemma listing_names:
  "name \<in> set (dir_entries ''uploads'' fs) \<Longrightarrow>
     name \<noteq> [] \<and> CHR ''/'' \<notin> set name \<and> os_path_exists (''uploads/'' @ name) fs"
proof -
  assume "name \<in> set (dir_entries ''uploads'' fs)"
  then obtain path where p: "path \<in> fst ` set fs" and c: "child_name ''uploads'' path = Some name"
    by (fastforce simp: dir_entries_def map_filter_def)
  from child_name_SomeD [OF c] have "path = ''uploads/'' @ name" "name \<noteq> []" "CHR ''/'' \<notin> set name"
    by simp_all
  with p show ?thesis
    by (auto simp: os_path_exists_def map_of_eq_None_iff)
qed

lemma map_filter_filter_keys:
  "List.map_filter (child_name ''uploads'') (filter (\<lambda>path. path \<notin> S) paths)
     = filter (\<lambda>name. ''uploads/'' @ name \<notin> S) (List.map_filter (child_name ''uploads'') paths)"
proof (induction paths)
  case Nil
  show ?case by (simp add: map_filter_def)
next
  case (Cons path paths)
  show ?case
  proof (cases "child_name ''uploads'' path")
    case None
    with Cons show ?thesis by (simp add: map_filter_def)
  next
    case (Some name)
    from child_name_SomeD [OF Some] have "path = ''uploads/'' @ name" by simp
    with Cons Some show ?thesis by (simp add: map_filter_def)
  qed
qed

lemma listing_filter_keys:
  "dir_entries ''uploads'' (filter (\<lambda>entry. fst entry \<notin> S) fs) = filter (\<lambda>name. ''uploads/'' @ name \<notin> S) (dir_entries ''uploads'' fs)"
proof -
  have "map fst (filter (\<lambda>entry. fst entry \<notin> S) fs) = filter (\<lambda>path. path \<notin> S) (map fst fs)"
    by (induction fs) auto
  then show ?thesis
    by (simp add: dir_entries_def map_filter_filter_keys remdups_filter)
qed


lemma sweep_filter:
  "\<exists>S. S \<subseteq> os_path_join ''uploads'' ` set names
       \<and> fst (sweep clock names fs) = filter (\<lambda>entry. fst entry \<notin> S) fs"
proof (induction names arbitrary: fs clock)
  case Nil
  have "fst (sweep clock [] fs) = filter (\<lambda>entry. fst entry \<notin> {}) fs" by simp
  then show ?case by blast
next
  case (Cons name names)
  let ?p = "os_path_join ''uploads'' name"
  have unchanged: "fst (sweep clock (name # names) fs) = fs \<Longrightarrow> ?case"
  proof -
    assume "fst (sweep clock (name # names) fs) = fs"
    then have "{} \<subseteq> os_path_join ''uploads'' ` set (name # names)
       \<and> fst (sweep clock (name # names) fs) = filter (\<lambda>entry. fst entry \<notin> {}) fs"
      by simp
    then show ?case by blast
  qed
  show ?case
  proof (cases "os_path_getmtime ?p fs")
    case (Inl e)
    then show ?thesis by (intro unchanged) (simp add: Let_def)
  next
    case (Inr modified)
    show ?thesis
    proof (cases "modified < clock 0 - 300")
      case False
      from Cons.IH [of "\<lambda>i. clock (Suc i)" fs] obtain S where
        "S \<subseteq> os_path_join ''uploads'' ` set names"
        "fst (sweep (\<lambda>i. clock (Suc i)) names fs) = filter (\<lambda>entry. fst entry \<notin> S) fs"
        by blast
      with Inr False have "S \<subseteq> os_path_join ''uploads'' ` set (name # names)
          \<and> fst (sweep clock (name # names) fs) = filter (\<lambda>entry. fst entry \<notin> S) fs"
        by (auto simp: Let_def)
      then show ?thesis by blast
    next
      case True
      show ?thesis
      proof (cases "os_remove ?p fs")
        case (Inl e)
        with Inr True show ?thesis by (intro unchanged) (simp add: Let_def)
      next
        case (Inr fs1)
        then have fs1: "fs1 = filter (\<lambda>entry. fst entry \<noteq> ?p) fs"
          by (simp add: os_remove_InrD)
        from Cons.IH [of "\<lambda>i. clock (Suc i)" fs1] obtain S where
          S: "S \<subseteq> os_path_join ''uploads'' ` set names"
          "fst (sweep (\<lambda>i. clock (Suc i)) names fs1) = filter (\<lambda>entry. fst entry \<notin> S) fs1"
          by blast
        have "filter (\<lambda>entry. fst entry \<notin> S) fs1 = filter (\<lambda>entry. fst entry \<notin> insert ?p S) fs"
          unfolding fs1 by (induction fs) auto
        with S Inr \<open>os_path_getmtime ?p fs = Inr modified\<close> True
        have "insert ?p S \<subseteq> os_path_join ''uploads'' ` set (name # names)
          \<and> fst (sweep clock (name # names) fs) = filter (\<lambda>entry. fst entry \<notin> insert ?p S) fs"
          by (auto simp: Let_def)
        then show ?thesis by blast
      qed
    qed
  qed
qed

lemma sweep_keeps:
  "q \<notin> os_path_join ''uploads'' ` set names \<Longrightarrow> map_of (fst (sweep clock names fs)) q = map_of fs q"
proof -
  assume q: "q \<notin> os_path_join ''uploads'' ` set names"
  from sweep_filter [of names clock fs] obtain S where
    "S \<subseteq> os_path_join ''uploads'' ` set names"
    "fst (sweep clock names fs) = filter (\<lambda>entry. fst entry \<notin> S) fs"
    by blast
  with q show ?thesis by (auto simp: map_of_filter_keys)
qed

lemma sweep_only_removes:
  "os_path_exists q (fst (sweep clock names fs)) \<Longrightarrow> os_path_exists q fs"
proof -
  assume e: "os_path_exists q (fst (sweep clock names fs))"
  from sweep_filter [of names clock fs] obtain S where
    "fst (sweep clock names fs) = filter (\<lambda>entry. fst entry \<notin> S) fs"
    by blast
  with e show ?thesis
    by (auto simp: os_path_exists_def map_of_filter_keys split: if_splits)
qed


lemma sweep_rerun:
  assumes "distinct names"
      and "inj_on (os_path_join ''uploads'') (set names)"
      and "\<And>name. name \<in> set names \<Longrightarrow> os_path_exists (os_path_join ''uploads'' name) fs"
  shows "sweep (\<lambda>_. now)
           (filter (\<lambda>name. os_path_exists (os_path_join ''uploads'' name) (fst (sweep (\<lambda>_. now) names fs))) names)
           (fst (sweep (\<lambda>_. now) names fs))
         = sweep (\<lambda>_. now) names fs"
  using assms
proof (induction names arbitrary: fs)
  case Nil
  show ?case by simp
next
  case (Cons name names)
  let ?P = "os_path_join ''uploads''"
  let ?p = "?P name"
  from Cons.prems(3) [of name] obtain nd where nd: "map_of fs ?p = Some nd"
    by (auto simp: os_path_exists_def)
  have dist: "distinct names" and inj: "inj_on ?P (set names)"
    using Cons.prems(1,2) by (simp_all add: inj_on_def)
  have fresh: "?p \<notin> ?P ` set names"
    using Cons.prems(1,2) by (auto simp: inj_on_def)
  have mt: "os_path_getmtime ?p fs = Inr (mtime nd)"
    by (simp add: os_path_getmtime_def nd)
  show ?case
  proof (cases "mtime nd < now - 300")
    case False
    let ?fs' = "fst (sweep (\<lambda>_. now) names fs)"
    have eq: "sweep (\<lambda>_. now) (name # names) fs = sweep (\<lambda>_. now) names fs"
      using mt False by (simp add: Let_def)
    have keep: "map_of ?fs' ?p = Some nd"
      using sweep_keeps [OF fresh, of "\<lambda>_. now" fs] nd by simp
    have IH: "sweep (\<lambda>_. now) (filter (\<lambda>name. os_path_exists (?P name) ?fs') names) ?fs' = sweep (\<lambda>_. now) names fs"
      using dist inj Cons.prems(3) by (intro Cons.IH) simp_all
    have "sweep (\<lambda>_. now) (filter (\<lambda>name. os_path_exists (?P name) ?fs') (name # names)) ?fs'
            = sweep (\<lambda>_. now) (filter (\<lambda>name. os_path_exists (?P name) ?fs') names) ?fs'"
      using keep False by (simp add: os_path_exists_def os_path_getmtime_def Let_def)
    with IH show ?thesis unfolding eq by simp
  next
    case True
    show ?thesis
    proof (cases "os_remove ?p fs")
      case (Inl e)
      have eq: "sweep (\<lambda>_. now) (name # names) fs = (fs, Some e)"
        using mt True Inl by (simp add: Let_def)
      have "filter (\<lambda>name. os_path_exists (?P name) fs) (name # names)
              = name # filter (\<lambda>name. os_path_exists (?P name) fs) names"
        using nd by (simp add: os_path_exists_def)
      then show ?thesis
        unfolding eq using mt True Inl by (simp add: Let_def)
    next
      case (Inr removed)
      let ?fs1 = "filter (\<lambda>entry. fst entry \<noteq> ?p) fs"
      let ?fs' = "fst (sweep (\<lambda>_. now) names ?fs1)"
      have rm: "os_remove ?p fs = Inr ?fs1"
        using Inr os_remove_InrD [of ?p fs removed] by simp
      have eq: "sweep (\<lambda>_. now) (name # names) fs = sweep (\<lambda>_. now) names ?fs1"
        using mt True rm by (simp add: Let_def)
      have "\<not> os_path_exists ?p ?fs1"
        by (simp add: os_path_exists_def map_of_filter_key)
      then have gone: "\<not> os_path_exists ?p ?fs'"
        using sweep_only_removes by blast
      have still: "\<And>other. other \<in> set names \<Longrightarrow> os_path_exists (?P other) ?fs1"
      proof -
        fix other assume o: "other \<in> set names"
        then have "?P other \<noteq> ?p" using fresh by (metis imageI)
        moreover have "os_path_exists (?P other) fs" using o Cons.prems(3) by simp
        ultimately show "os_path_exists (?P other) ?fs1"
          by (simp add: os_path_exists_def map_of_filter_key)
      qed
      have IH: "sweep (\<lambda>_. now) (filter (\<lambda>name. os_path_exists (?P name) ?fs') names) ?fs' = sweep (\<lambda>_. now) names ?fs1"
        using dist inj still by (intro Cons.IH) simp_all
      show ?thesis
        unfolding eq using gone IH by simp
    qed
  qed
qed

lemma periodic_cleanup_round_idem:
  "periodic_cleanup_round (\<lambda>_. now) (fst (periodic_cleanup_round (\<lambda>_. now) fs)) = periodic_cleanup_round (\<lambda>_. now) fs"
proof (cases "map_of fs ''uploads''")
  case None
  then show ?thesis by (simp add: periodic_cleanup_round_def os_path_exists_def)
next
  case (Some nd)
  show ?thesis
  proof (cases nd)
    case (File t removable)
    with Some show ?thesis
      by (simp add: periodic_cleanup_round_def os_path_exists_def os_listdir_def)
  next
    case (Dir t)
    let ?P = "os_path_join ''uploads''"
    let ?names = "dir_entries ''uploads'' fs"
    let ?fs' = "fst (sweep (\<lambda>_. now) ?names fs)"
    have good: "\<And>name. name \<in> set ?names \<Longrightarrow> ?P name = ''uploads/'' @ name"
      using listing_names uploads_join by blast
    have round: "periodic_cleanup_round (\<lambda>_. now) fs = sweep (\<lambda>_. now) ?names fs"
      using Some Dir by (simp add: periodic_cleanup_round_def os_path_exists_def os_listdir_def)
    have "''uploads'' \<notin> ?P ` set ?names"
      using good by auto
    then have dir': "map_of ?fs' ''uploads'' = Some (Dir t)"
      using sweep_keeps [of "''uploads''" ?names "\<lambda>_. now" fs] Some Dir by simp
    from sweep_filter [of ?names "\<lambda>_. now" fs] obtain S where
      S: "?fs' = filter (\<lambda>entry. fst entry \<notin> S) fs"
      by blast
    have "dir_entries ''uploads'' ?fs' = filter (\<lambda>name. ''uploads/'' @ name \<notin> S) ?names"
      by (subst S) (rule listing_filter_keys)
    also have "\<dots> = filter (\<lambda>name. os_path_exists (?P name) ?fs') ?names"
    proof (rule filter_cong [OF refl])
      fix name assume n: "name \<in> set ?names"
      then have "os_path_exists (''uploads/'' @ name) fs" using listing_names by blast
      then have "''uploads/'' @ name \<notin> S \<longleftrightarrow> os_path_exists (''uploads/'' @ name) ?fs'"
        by (subst S) (simp add: os_path_exists_def map_of_filter_keys)
      then show "''uploads/'' @ name \<notin> S \<longleftrightarrow> os_path_exists (?P name) ?fs'"
        using good [OF n] by simp
    qed
    finally have names': "dir_entries ''uploads'' ?fs'
        = filter (\<lambda>name. os_path_exists (?P name) ?fs') ?names" .
    have "periodic_cleanup_round (\<lambda>_. now) ?fs'
        = sweep (\<lambda>_. now) (filter (\<lambda>name. os_path_exists (?P name) ?fs') ?names) ?fs'"
      using dir' names'
      by (simp add: periodic_cleanup_round_def os_path_exists_def os_listdir_def Let_def)
    also have "\<dots> = sweep (\<lambda>_. now) ?names fs"
    proof (rule sweep_rerun)
      show "distinct ?names" by (simp add: dir_entries_def)
      show "inj_on ?P (set ?names)"
        by (rule inj_onI) (simp add: good)
      show "\<And>name. name \<in> set ?names \<Longrightarrow> os_path_exists (?P name) fs"
        using listing_names good by simp
    qed
    finally show ?thesis unfolding round .
  qed
qed


text \<open>
  Claim C6. Deletion is idempotent. For \<open>cleanup_file\<close> and for the \<open>finally\<close> block of
  the handler: running the cleanup of a path twice leaves the disk as running it once; on
  a path that does not exist it changes nothing and catches no error; and after a run that
  caught no error a second run is such a no-op. For the periodic sweep: a second round,
  the clock reading the same instant throughout, repeats the result of the first and
  leaves the disk as the first did; without the uploads directory a round does nothing;
  and a round never brings back a path that is gone.
\<close>

theorem file_deletion_idempotent:
  "fst (cleanup_file path delay' (fst (cleanup_file path delay fs))) = fst (cleanup_file path delay fs)
   \<and> (\<not> os_path_exists path fs \<longrightarrow> cleanup_file path delay fs = (fs, None))
   \<and> (snd (cleanup_file path delay fs) = None \<longrightarrow>
        cleanup_file path delay' (fst (cleanup_file path delay fs))
          = (fst (cleanup_file path delay fs), None))
   \<and> fst (privacy_cleanup temp_path (fst (privacy_cleanup temp_path fs)))
        = fst (privacy_cleanup temp_path fs)
   \<and> (\<not> os_path_exists path fs \<longrightarrow> privacy_cleanup (Some path) fs = (fs, None))
   \<and> (snd (privacy_cleanup temp_path fs) = None \<longrightarrow>
        privacy_cleanup temp_path (fst (privacy_cleanup temp_path fs))
          = (fst (privacy_cleanup temp_path fs), None))
   \<and> periodic_cleanup_round (\<lambda>_. now) (fst (periodic_cleanup_round (\<lambda>_. now) fs))
        = periodic_cleanup_round (\<lambda>_. now) fs
   \<and> (\<not> os_path_exists ''uploads'' fs \<longrightarrow> periodic_cleanup_round clock fs = (fs, None))
   \<and> (\<not> os_path_exists path fs \<longrightarrow>
        \<not> os_path_exists path (fst (periodic_cleanup_round clock fs)))"
proof -
  have c1: "fst (cleanup_file path delay' (fst (cleanup_file path delay fs))) = fst (cleanup_file path delay fs)"
    by (simp add: cleanup_file_cases map_of_filter_key split: option.splits node.splits)
  have c2: "\<not> os_path_exists path fs \<longrightarrow> cleanup_file path delay fs = (fs, None)"
    by (simp add: cleanup_file_def)
  have c3: "snd (cleanup_file path delay fs) = None \<longrightarrow>
        cleanup_file path delay' (fst (cleanup_file path delay fs))
          = (fst (cleanup_file path delay fs), None)"
    by (simp add: cleanup_file_cases map_of_filter_key split: option.splits node.splits)
  have p1: "fst (privacy_cleanup temp_path (fst (privacy_cleanup temp_path fs)))
        = fst (privacy_cleanup temp_path fs)"
  proof (cases temp_path)
    case None
    then show ?thesis by (simp add: privacy_cleanup_def)
  next
    case (Some p)
    then show ?thesis
      by (simp add: privacy_cleanup_cases map_of_filter_key split: option.splits node.splits)
  qed
  have p2: "\<not> os_path_exists path fs \<longrightarrow> privacy_cleanup (Some path) fs = (fs, None)"
    by (simp add: privacy_cleanup_def)
  have p3: "snd (privacy_cleanup temp_path fs) = None \<longrightarrow>
        privacy_cleanup temp_path (fst (privacy_cleanup temp_path fs))
          = (fst (privacy_cleanup temp_path fs), None)"
  proof (cases temp_path)
    case None
    then show ?thesis by (simp add: privacy_cleanup_def)
  next
    case (Some p)
    then show ?thesis
      by (simp add: privacy_cleanup_cases map_of_filter_key split: option.splits node.splits)
  qed
  have r1: "periodic_cleanup_round (\<lambda>_. now) (fst (periodic_cleanup_round (\<lambda>_. now) fs))
        = periodic_cleanup_round (\<lambda>_. now) fs"
    by (rule periodic_cleanup_round_idem)
  have r2: "\<not> os_path_exists ''uploads'' fs \<longrightarrow> periodic_cleanup_round clock fs = (fs, None)"
    by (simp add: periodic_cleanup_round_def)
  have r3: "\<not> os_path_exists path fs \<longrightarrow>
        \<not> os_path_exists path (fst (periodic_cleanup_round clock fs))"
    using sweep_only_removes [of path clock "dir_entries ''uploads'' fs" fs]
    by (auto simp: periodic_cleanup_round_def os_listdir_def Let_def
        split: option.splits node.splits if_splits)
  from c1 c2 c3 p1 p2 p3 r1 r2 r3 show ?thesis by (intro conjI)
qed

theorem file_deletion_idempotent_witness:
  "cleanup_file ''uploads/a.jpg'' 0 [(''uploads'', Dir 0), (''uploads/a.jpg'', File 100 True), (''uploads/b.jpg'', File 900 True)] = ([(''uploads'', Dir 0), (''uploads/b.jpg'', File 900 True)], None)
   \<and> cleanup_file ''uploads/a.jpg'' 0 [(''uploads'', Dir 0), (''uploads/b.jpg'', File 900 True)] = ([(''uploads'', Dir 0), (''uploads/b.jpg'', File 900 True)], None)
   \<and> privacy_cleanup (Some ''uploads/a.jpg'') [(''uploads'', Dir 0), (''uploads/a.jpg'', File 100 True), (''uploads/b.jpg'', File 900 True)] = ([(''uploads'', Dir 0), (''uploads/b.jpg'', File 900 True)], None)
   \<and> privacy_cleanup (Some ''uploads/a.jpg'') [(''uploads'', Dir 0), (''uploads/b.jpg'', File 900 True)] = ([(''uploads'', Dir 0), (''uploads/b.jpg'', File 900 True)], None)
   \<and> periodic_cleanup_round (\<lambda>_. 1000) [(''uploads'', Dir 0), (''uploads/a.jpg'', File 100 True), (''uploads/b.jpg'', File 900 True)] = ([(''uploads'', Dir 0), (''uploads/b.jpg'', File 900 True)], None)
   \<and> periodic_cleanup_round (\<lambda>_. 1000) [(''uploads'', Dir 0), (''uploads/b.jpg'', File 900 True)] = ([(''uploads'', Dir 0), (''uploads/b.jpg'', File 900 True)], None)
   \<and> periodic_cleanup_round (\<lambda>_. 1000) [] = ([], None)"
  using file_deletion_idempotent
      [where path = "''uploads/a.jpg''" and delay = 0 and delay' = 0 and fs = "[(''uploads'', Dir 0), (''uploads/a.jpg'', File 100 True), (''uploads/b.jpg'', File 900 True)]"
         and temp_path = "Some ''uploads/a.jpg''" and now = 1000 and clock = "\<lambda>_. 1000"]
    file_deletion_idempotent
      [where path = "''uploads/a.jpg''" and delay = 0 and delay' = 0 and fs = "[(''uploads'', Dir 0), (''uploads/b.jpg'', File 900 True)]"
         and temp_path = "Some ''uploads/a.jpg''" and now = 1000 and clock = "\<lambda>_. 1000"]
    file_deletion_idempotent
      [where path = "''uploads/a.jpg''" and delay = 0 and delay' = 0 and fs = "[]"
         and temp_path = "Some ''uploads/a.jpg''" and now = 1000 and clock = "\<lambda>_. 1000"]
  by (simp add: cleanup_file_def privacy_cleanup_def periodic_cleanup_round_def os_path_exists_def
      os_listdir_def dir_entries_def map_filter_def child_name_def os_path_join_def
      os_path_getmtime_def os_remove_def Let_def)

end
